theory Spec2Isabelle
  imports Main "HOL-Library.Word" "HOL-Library.Sublist"
begin

section \<open>The authentication server factory (astore/server/auth/factory.go)\<close>

text \<open>
  The file builds a \<open>Server\<close> from a random source and a list of modifiers
  (functional options). Go returns a pair \<open>(*Server, error)\<close>; the model keeps both
  components, \<open>None\<close> standing for \<open>nil\<close>. A modifier mutates the server through a
  pointer and returns an error or \<open>nil\<close>; the model returns the error together with
  the server as the modifier left it.
\<close>

subsection \<open>Library functions the factory calls\<close>

type_synonym byte = "8 word"

text \<open>\<open>time.Duration\<close> is an \<open>int64\<close> counting nanoseconds.\<close>

type_synonym Duration = "64 word"

definition Nanosecond :: Duration where
  "Nanosecond = 1"

definition Microsecond :: Duration where
  "Microsecond = 1000 * Nanosecond"

definition Millisecond :: Duration where
  "Millisecond = 1000 * Microsecond"

definition Second :: Duration where
  "Second = 1000 * Millisecond"

definition Minute :: Duration where
  "Minute = 60 * Second"

text \<open>\<open>strings.HasSuffix\<close> and \<open>strings.TrimSuffix\<close>, on byte strings.\<close>

definition HasSuffix :: "string \<Rightarrow> string \<Rightarrow> bool" where
  "HasSuffix s sfx =
     (length s \<ge> length sfx \<and> drop (length s - length sfx) s = sfx)"

definition TrimSuffix :: "string \<Rightarrow> string \<Rightarrow> string" where
  "TrimSuffix s sfx =
     (if HasSuffix s sfx then take (length s - length sfx) s else s)"

text \<open>
  \<open>strings.Index s substr\<close>: the index of the first occurrence of \<open>substr\<close> in
  \<open>s\<close>; Go's \<open>-1\<close> is \<open>None\<close>.
\<close>

fun Index :: "string \<Rightarrow> string \<Rightarrow> nat option" where
  "Index [] substr = (if substr = [] then Some 0 else None)"
| "Index (c # cs) substr =
     (if prefix substr (c # cs) then Some 0 else map_option Suc (Index cs substr))"

text \<open>
  \<open>strings.Split s sep\<close> (\<open>genSplit\<close> with no limit): cut \<open>s\<close> at every
  occurrence of \<open>sep\<close>, leftmost first; the last piece is what is left. With an
  empty separator Go explodes the string into its UTF-8 sequences; the model explodes
  into bytes there, which is the same on ASCII, and the factory never takes that
  branch (its separator is the one-byte string \<open>'',''\<close>).
\<close>

function Split :: "string \<Rightarrow> string \<Rightarrow> string list" where
  "Split s sep =
     (if sep = [] then map (\<lambda>c. [c]) s
      else case Index s sep of
             None \<Rightarrow> [s]
           | Some m \<Rightarrow> take m s # Split (drop (m + length sep) s) sep)"
  by pat_completeness auto
termination
proof (relation "measure (\<lambda>(s, sep). length s)")
  show "wf (measure (\<lambda>(s, sep). length s))" by simp
next
  fix s sep :: string and m :: nat
  assume sep: "sep \<noteq> []" and idx: "Index s sep = Some m"
  from idx sep have "s \<noteq> []" by (cases s) auto
  with sep have "length (drop (m + length sep) s) < length s" by (cases sep) auto
  then show "((drop (m + length sep) s, sep), (s, sep)) \<in> measure (\<lambda>(s, sep). length s)"
    by simp
qed

declare Split.simps [simp del]

text \<open>
  The \<open>golang.org/x/crypto/ssh\<close> functions the factory calls are parameters of the
  model: parsing a private key (which may fail), the public key of a signer, and the
  authorized-key marshalling of a public key.
\<close>

record ('e, 'sg, 'pk) ssh =
  ParsePrivateKey :: "byte list \<Rightarrow> 'e + 'sg"
  PublicKey :: "'sg \<Rightarrow> 'pk"
  MarshalAuthorizedKey :: "'pk \<Rightarrow> byte list"

subsection \<open>Errors, flags and the server\<close>

text \<open>
  An error is one made here, with its message (\<open>errors.New\<close>, \<open>fmt.Errorf\<close>),
  or one a library returned.
\<close>

datatype 'e error = errors_New string | fmt_Errorf string | lib_error 'e

record Flags =
  TimeLimit :: Duration
  AuthURL :: string
  Principals :: string
  CA :: "byte list"


text \<open>
  Modelled from the spec: the \<open>Server\<close> struct is declared in another file of the
  package. The spec gives the broker its identity key pair, the store of jars keyed by
  a client public key, the principal list, the CA signing key with its public key in
  authorized-key form, the time limit and the endpoint URL; the field names and types
  are the ones the factory reads and writes. \<open>'r\<close> is the random source (a pointer
  the server keeps), \<open>'sg\<close> the CA signer, \<open>'j\<close> the jar of a pending session. A
  \<open>nil\<close> signer is \<open>None\<close>, a \<open>nil\<close> slice is the empty list, the empty Go
  map is the empty map.
\<close>

record ('r, 'sg, 'j) Server =
  rng :: 'r
  serverPub :: "byte list"
  serverPriv :: "byte list"
  jars :: "byte list \<rightharpoonup> 'j"
  limit :: Duration
  authURL :: string
  caSigner :: "'sg option"
  marshalledCAPublicKey :: "byte list"
  principals :: "string list"

type_synonym ('e, 'r, 'sg, 'j) Modifier =
  "('r, 'sg, 'j) Server \<Rightarrow> 'e error option \<times> ('r, 'sg, 'j) Server"

subsection \<open>The modifiers\<close>

definition WithAuthURL :: "string \<Rightarrow> ('e, 'r, 'sg, 'j) Modifier" where
  "WithAuthURL url s = (None, s\<lparr>authURL := url\<rparr>)"

definition WithTimeLimit :: "Duration \<Rightarrow> ('e, 'r, 'sg, 'j) Modifier" where
  "WithTimeLimit lim s = (None, s\<lparr>limit := lim\<rparr>)"

definition WithCA ::
  "('e, 'sg, 'pk) ssh \<Rightarrow> byte list \<Rightarrow> ('e, 'r, 'sg, 'j) Modifier" where
  "WithCA lib fileContent server =
     (case ParsePrivateKey lib fileContent of
        Inl err \<Rightarrow> (Some (lib_error err), server)
      | Inr signer \<Rightarrow>
          (None, server\<lparr>caSigner := Some signer,
                         marshalledCAPublicKey :=
                           MarshalAuthorizedKey lib (PublicKey lib signer)\<rparr>))"

definition WithPrincipals :: "string \<Rightarrow> ('e, 'r, 'sg, 'j) Modifier" where
  "WithPrincipals raw server =
     (let splitString = Split raw '','' in
      if length splitString = 0 \<or> (length splitString = 1 \<and> splitString ! 0 = [])
      then (Some (errors_New ''there cannot be 0 principals in the auth server''), server)
      else (None, server\<lparr>principals := splitString\<rparr>))"

definition WithFlags ::
  "('e, 'sg, 'pk) ssh \<Rightarrow> Flags \<Rightarrow> ('e, 'r, 'sg, 'j) Modifier" where
  "WithFlags lib f s =
     (case WithTimeLimit (TimeLimit f) s of
        (Some err, s) \<Rightarrow> (Some err, s)
      | (None, s) \<Rightarrow>
     (case WithAuthURL (AuthURL f) s of
        (Some err, s) \<Rightarrow> (Some err, s)
      | (None, s) \<Rightarrow>
     (case WithCA lib (CA f) s of
        (Some err, s) \<Rightarrow> (Some err, s)
      | (None, s) \<Rightarrow>
     (case WithPrincipals (Principals f) s of
        (Some err, s) \<Rightarrow> (Some err, s)
      | (None, s) \<Rightarrow>
     (if authURL s = [] \<or> authURL s = ''/''
      then (Some (fmt_Errorf
              ''an auth-url must be supplied using the --auth-url parameter''), s)
      else (None, s))))))"

subsection \<open>New\<close>

text \<open>
  The loop of \<open>New\<close> over its modifiers: each is applied to the server the earlier
  ones left, and the first error ends the loop.
\<close>

fun apply_mods :: "('s \<Rightarrow> 'x option \<times> 's) list \<Rightarrow> 's \<Rightarrow> 'x option \<times> 's" where
  "apply_mods [] s = (None, s)"
| "apply_mods (m # mods) s =
     (case m s of
        (Some err, s') \<Rightarrow> (Some err, s')
      | (None, s') \<Rightarrow> apply_mods mods s')"

text \<open>The server \<open>New\<close> allocates before it applies the modifiers.\<close>

definition new_server :: "'r \<Rightarrow> byte list \<Rightarrow> byte list \<Rightarrow> ('r, 'sg, 'j) Server" where
  "new_server r pub priv =
     \<lparr>rng = r, serverPub = pub, serverPriv = priv, jars = Map.empty,
      limit = 30 * Minute, authURL = [], caSigner = None,
      marshalledCAPublicKey = [], principals = []\<rparr>"

text \<open>
  \<open>box.GenerateKey\<close> is a parameter: from the random source it gives a public and
  a private key, or an error.
\<close>

definition New ::
  "('r \<Rightarrow> 'e + byte list \<times> byte list) \<Rightarrow> 'r \<Rightarrow> ('e, 'r, 'sg, 'j) Modifier list \<Rightarrow>
     ('r, 'sg, 'j) Server option \<times> 'e error option" where
  "New GenerateKey r mods =
     (case GenerateKey r of
        Inl err \<Rightarrow> (None, Some (lib_error err))
      | Inr (pub, priv) \<Rightarrow>
          (case apply_mods mods (new_server r pub priv) of
             (Some err, s) \<Rightarrow> (None, Some err)
           | (None, s) \<Rightarrow>
               (let s = s\<lparr>authURL := TrimSuffix (authURL s) ''/''\<rparr> in
                if authURL s = []
                then (None, Some (fmt_Errorf
                        ''API usage error - an authentication URL must be set''))
                else (Some s, None))))"

subsection \<open>Vocabulary of the statements\<close>

text \<open>
  A modifier keeps a field when the server it leaves has the field's old value,
  whether it returns an error or not.
\<close>

definition keeps :: "('s \<Rightarrow> 'a) \<Rightarrow> ('s \<Rightarrow> 'x option \<times> 's) \<Rightarrow> bool" where
  "keeps fld m = (\<forall>s. fld (snd (m s)) = fld s)"

text \<open>
  \<open>strings.Join\<close>, the inverse of \<open>Split\<close>; the factory does not call it, it
  only says here what the pieces of a split are.
\<close>

definition Join :: "string list \<Rightarrow> string \<Rightarrow> string" where
  "Join elems sep =
     (case elems of [] \<Rightarrow> [] | e # es \<Rightarrow> e @ concat (map (\<lambda>p. sep @ p) es))"

text \<open>
  A concrete environment for the examples: a key generator that fails on the random
  source \<open>0\<close> and succeeds on every other, and an \<open>ssh\<close> package that rejects the
  empty key file.
\<close>

definition test_GenerateKey :: "nat \<Rightarrow> string + byte list \<times> byte list" where
  "test_GenerateKey r = (if r = 0 then Inl ''short read'' else Inr ([1], [2]))"

definition test_ssh :: "(string, byte list, byte list) ssh" where
  "test_ssh =
     \<lparr>ParsePrivateKey = (\<lambda>b. if b = [] then Inl ''ssh: no key found'' else Inr b),
      PublicKey = rev,
      MarshalAuthorizedKey = (\<lambda>pk. pk @ [10])\<rparr>"

definition test_server :: "(nat, byte list, unit) Server" where
  "test_server = new_server 1 [1] [2]"

definition test_flags :: Flags where
  "test_flags =
     \<lparr>TimeLimit = 5 * Minute, AuthURL = ''https://auth.example.com/'',
      Principals = ''john,root'', CA = [7, 8]\<rparr>"

section \<open>Properties\<close>

subsection \<open>The loop over the modifiers\<close>

lemma apply_mods_append:
  "apply_mods (ms1 @ ms2) s =
     (case apply_mods ms1 s of
        (Some err, s') \<Rightarrow> (Some err, s')
      | (None, s') \<Rightarrow> apply_mods ms2 s')"
  by (induction ms1 arbitrary: s) (auto split: prod.splits option.splits)

lemma apply_mods_keeps:
  "\<forall>m\<in>set ms. keeps fld m \<Longrightarrow> fld (snd (apply_mods ms s)) = fld s"
proof (induction ms arbitrary: s)
  case Nil
  then show ?case by simp
next
  case (Cons m ms)
  have k: "fld (snd (m s)) = fld s" using Cons.prems by (simp add: keeps_def)
  show ?case
  proof (cases "m s")
    case (Pair e s')
    with k have s': "fld s' = fld s" by simp
    show ?thesis
    proof (cases e)
      case None
      with Pair Cons s' show ?thesis by simp
    next
      case (Some err)
      with Pair s' show ?thesis by simp
    qed
  qed
qed


subsection \<open>Split\<close>

lemma Split_None: "sep \<noteq> [] \<Longrightarrow> Index s sep = None \<Longrightarrow> Split s sep = [s]"
  by (simp add: Split.simps)

lemma Split_Some:
  "sep \<noteq> [] \<Longrightarrow> Index s sep = Some m \<Longrightarrow>
     Split s sep = take m s # Split (drop (m + length sep) s) sep"
  by (subst Split.simps) simp

lemma Split_not_Nil: "sep \<noteq> [] \<Longrightarrow> Split s sep \<noteq> []"
  by (cases "Index s sep") (simp_all add: Split_None Split_Some)

lemma Split_single_empty: "sep \<noteq> [] \<Longrightarrow> Split s sep = [[]] \<longleftrightarrow> s = []"
  by (cases "Index s sep") (auto simp add: Split_None Split_Some Split_not_Nil)

lemma Index_decompose:
  "Index s sep = Some m \<Longrightarrow> s = take m s @ sep @ drop (m + length sep) s"
proof (induction s arbitrary: m)
  case Nil
  then show ?case by (simp split: if_splits)
next
  case (Cons c cs)
  show ?case
  proof (cases "prefix sep (c # cs)")
    case True
    with Cons.prems have "m = 0" by simp
    with True show ?thesis by (auto simp: prefix_def)
  next
    case False
    with Cons.prems obtain k where k: "Index cs sep = Some k" "m = Suc k" by auto
    from Cons.IH[OF k(1)] k(2) show ?thesis by simp
  qed
qed

lemma Join_Split: "sep \<noteq> [] \<Longrightarrow> Join (Split s sep) sep = s"
proof (induction s sep rule: Split.induct)
  case (1 s sep)
  show ?case
  proof (cases "Index s sep")
    case None
    with 1 show ?thesis by (simp add: Split_None Join_def)
  next
    case (Some m)
    from 1 Some have ih: "Join (Split (drop (m + length sep) s) sep) sep = drop (m + length sep) s"
      by simp
    obtain x xs where sp: "Split (drop (m + length sep) s) sep = x # xs"
      using Split_not_Nil[OF 1(2)] by (cases "Split (drop (m + length sep) s) sep") auto
    from ih sp have "x @ concat (map (\<lambda>p. sep @ p) xs) = drop (m + length sep) s"
      by (simp add: Join_def)
    then have "Join (Split s sep) sep = take m s @ sep @ drop (m + length sep) s"
      using 1(2) Some sp by (simp add: Split_Some Join_def)
    with Index_decompose[OF Some] show ?thesis by simp
  qed
qed

lemma Index_byte_None: "Index s [c] = None \<Longrightarrow> c \<notin> set s"
  by (induction s) (auto split: if_splits)

lemma Index_byte_Some: "Index s [c] = Some m \<Longrightarrow> c \<notin> set (take m s)"
proof (induction s arbitrary: m)
  case Nil
  then show ?case by simp
next
  case (Cons a s)
  then show ?case by (cases "a = c") (auto split: if_splits)
qed

lemma Split_byte_pieces: "p \<in> set (Split s [c]) \<Longrightarrow> c \<notin> set p"
proof (induction s "[c]" arbitrary: p rule: Split.induct)
  case (1 s)
  show ?case
  proof (cases "Index s [c]")
    case None
    with 1(2) show ?thesis by (simp add: Split_None Index_byte_None)
  next
    case (Some m)
    with 1 show ?thesis by (auto simp add: Split_Some Index_byte_Some)
  qed
qed

subsection \<open>What each modifier does\<close>

lemma WithPrincipals_eq:
  "WithPrincipals raw s =
     (if raw = [] then (Some (errors_New ''there cannot be 0 principals in the auth server''), s)
      else (None, s\<lparr>principals := Split raw '',''\<rparr>))"
proof -
  have ne: "Split raw '','' \<noteq> []" by (simp add: Split_not_Nil)
  have one: "(length (Split raw '','') = 1 \<and> Split raw '','' ! 0 = []) \<longleftrightarrow> raw = []"
  proof -
    have "(length (Split raw '','') = 1 \<and> Split raw '','' ! 0 = []) \<longleftrightarrow> Split raw '','' = [[]]"
      by (cases "Split raw '',''") auto
    then show ?thesis by (simp add: Split_single_empty)
  qed
  show ?thesis unfolding WithPrincipals_def Let_def using ne one by auto
qed

lemma WithFlags_eq:
  "WithFlags lib f s =
     (case ParsePrivateKey lib (CA f) of
        Inl err \<Rightarrow> (Some (lib_error err), s\<lparr>limit := TimeLimit f, authURL := AuthURL f\<rparr>)
      | Inr signer \<Rightarrow>
          (if Principals f = []
           then (Some (errors_New ''there cannot be 0 principals in the auth server''),
                 s\<lparr>limit := TimeLimit f, authURL := AuthURL f, caSigner := Some signer,
                   marshalledCAPublicKey := MarshalAuthorizedKey lib (PublicKey lib signer)\<rparr>)
           else if AuthURL f = [] \<or> AuthURL f = ''/''
           then (Some (fmt_Errorf ''an auth-url must be supplied using the --auth-url parameter''),
                 s\<lparr>limit := TimeLimit f, authURL := AuthURL f, caSigner := Some signer,
                   marshalledCAPublicKey := MarshalAuthorizedKey lib (PublicKey lib signer),
                   principals := Split (Principals f) '',''\<rparr>)
           else (None,
                 s\<lparr>limit := TimeLimit f, authURL := AuthURL f, caSigner := Some signer,
                   marshalledCAPublicKey := MarshalAuthorizedKey lib (PublicKey lib signer),
                   principals := Split (Principals f) '',''\<rparr>)))"
  by (simp add: WithFlags_def WithTimeLimit_def WithAuthURL_def WithCA_def WithPrincipals_eq
      split: sum.splits)

lemma keeps_authURL_factory:
  "keeps authURL (WithTimeLimit l)" "keeps authURL (WithCA lib b)"
  "keeps authURL (WithPrincipals p)"
  by (simp_all add: keeps_def WithTimeLimit_def WithCA_def WithPrincipals_eq split: sum.splits)


lemma keeps_jars_factory:
  "keeps jars (WithTimeLimit l)" "keeps jars (WithAuthURL u)" "keeps jars (WithCA lib b)"
  "keeps jars (WithPrincipals p)" "keeps jars (WithFlags lib f)"
  by (simp_all add: keeps_def WithTimeLimit_def WithAuthURL_def WithCA_def WithPrincipals_eq
      WithFlags_eq split: sum.splits)

lemma keeps_CA_factory:
  "keeps marshalledCAPublicKey (WithTimeLimit l)" "keeps marshalledCAPublicKey (WithAuthURL u)"
  "keeps marshalledCAPublicKey (WithPrincipals p)"
  by (simp_all add: keeps_def WithTimeLimit_def WithAuthURL_def WithPrincipals_eq)

subsection \<open>TrimSuffix on a slash\<close>

lemma TrimSuffix_slash_empty: "TrimSuffix u ''/'' = [] \<longleftrightarrow> u = [] \<or> u = ''/''"
  by (cases u rule: rev_cases) (auto simp add: TrimSuffix_def HasSuffix_def)

lemma TrimSuffix_slash_snoc: "TrimSuffix (v @ ''/'') ''/'' = v"
  by (simp add: TrimSuffix_def HasSuffix_def)

lemma TrimSuffix_no_suffix: "\<not> HasSuffix u sfx \<Longrightarrow> TrimSuffix u sfx = u"
  by (simp add: TrimSuffix_def)

subsection \<open>The outcomes of New\<close>

lemma New_Some_iff:
  "New gk r mods = (Some srv, oe) \<longleftrightarrow>
     (\<exists>pub priv s. gk r = Inr (pub, priv) \<and> apply_mods mods (new_server r pub priv) = (None, s)
        \<and> TrimSuffix (authURL s) ''/'' \<noteq> [] \<and> oe = None
        \<and> srv = s\<lparr>authURL := TrimSuffix (authURL s) ''/''\<rparr>)"
  by (auto simp add: New_def Let_def split: sum.splits prod.splits option.splits)

lemma New_cases:
  "(\<exists>e. New gk r mods = (None, Some e)) \<or> (\<exists>srv. New gk r mods = (Some srv, None))"
  by (auto simp add: New_def Let_def split: sum.splits prod.splits option.splits)

lemma New_keygen_error: "gk r = Inl err \<Longrightarrow> New gk r mods = (None, Some (lib_error err))"
  by (simp add: New_def)

lemma New_error_of_mods:
  "fst (apply_mods mods (new_server r pub priv)) \<noteq> None \<Longrightarrow> gk r = Inr (pub, priv) \<Longrightarrow>
     \<exists>e. New gk r mods = (None, Some e)"
  by (auto simp add: New_def split: prod.splits option.splits)

lemma New_always_failing_modifier:
  assumes "\<forall>s. fst (m s) \<noteq> None"
  shows "\<exists>e. New gk r (ms1 @ m # ms2) = (None, Some e)"
proof (cases "gk r")
  case (Inl err)
  then show ?thesis by (simp add: New_keygen_error)
next
  case (Inr kp)
  obtain pub priv where kp: "kp = (pub, priv)" by (cases kp)
  obtain e1 s1 where s1: "apply_mods ms1 (new_server r pub priv) = (e1, s1)"
    by (cases "apply_mods ms1 (new_server r pub priv)")
  obtain e2 s2 where s2: "m s1 = (e2, s2)" by (cases "m s1")
  from assms s2 have e2: "e2 \<noteq> None" by (metis fst_conv)
  have "fst (apply_mods (ms1 @ m # ms2) (new_server r pub priv)) \<noteq> None"
    using s1 s2 e2 by (cases e1) (auto simp add: apply_mods_append)
  with Inr kp show ?thesis by (simp add: New_error_of_mods)
qed

lemma New_first_error:
  "gk r = Inr (pub, priv) \<Longrightarrow> apply_mods ms1 (new_server r pub priv) = (None, s1) \<Longrightarrow>
     fst (m s1) = Some e \<Longrightarrow> New gk r (ms1 @ m # ms2) = (None, Some e)"
  by (cases "m s1") (simp add: New_def apply_mods_append)

lemma apply_mods_url:
  assumes m: "m = WithAuthURL u \<or> m = WithFlags lib (f\<lparr>AuthURL := u\<rparr>)"
    and k: "\<forall>m'\<in>set ms2. keeps authURL m'"
    and a: "apply_mods (ms1 @ m # ms2) s0 = (None, s)"
  shows "authURL s = u"
proof -
  obtain s1 where s1: "apply_mods ms1 s0 = (None, s1)"
    and rest: "apply_mods (m # ms2) s1 = (None, s)"
    using a by (auto simp add: apply_mods_append split: prod.splits option.splits)
  from rest obtain s2 where s2: "m s1 = (None, s2)" and fin: "apply_mods ms2 s2 = (None, s)"
    by (auto split: prod.splits option.splits)
  from m s2 have "authURL s2 = u"
    by (auto simp add: WithAuthURL_def WithFlags_eq split: sum.splits if_splits)
  moreover from apply_mods_keeps[OF k, of s2] fin have "authURL s = authURL s2" by simp
  ultimately show ?thesis by simp
qed


text \<open>The unfolding rules that evaluate the examples.\<close>

lemmas test_eval =
  New_def test_GenerateKey_def test_ssh_def test_server_def test_flags_def new_server_def
  WithAuthURL_def WithTimeLimit_def WithCA_def WithPrincipals_eq WithFlags_eq
  TrimSuffix_def HasSuffix_def Let_def

lemma Split_examples:
  "Split ''root'' '','' = [''root'']"
  "Split ''john,root'' '','' = [''john'', ''root'']"
  "Split '','' '','' = [[], []]"
  by code_simp+

text \<open>
  The time limit and the URL modifiers return \<open>nil\<close> on every server: any duration
  and any string is stored as it is.
\<close>

lemma WithTimeLimit_WithAuthURL_never_fail:
  "fst (WithTimeLimit l s) = None" "fst (WithAuthURL u s) = None"
  by (simp_all add: WithTimeLimit_def WithAuthURL_def)

text \<open>
  \<open>New\<close> ends with a test of the URL and has none for the other fields: the
  principal list is only tested inside \<open>WithPrincipals\<close>. A list of modifiers that
  holds neither \<open>WithPrincipals\<close> nor \<open>WithFlags\<close> gives a server whose principal
  list is the \<open>nil\<close> slice.
\<close>

lemma New_without_principal_modifier:
  "New test_GenerateKey 1 [WithAuthURL ''https://auth.example.com''] =
     (Some (test_server\<lparr>authURL := ''https://auth.example.com''\<rparr>), None)"
  "principals (test_server\<lparr>authURL := ''https://auth.example.com''\<rparr>) = []"
  by (simp_all add: test_eval)

section \<open>The claims\<close>

subsection \<open>C5: a key pair that cannot be generated\<close>

text \<open>
  C5. If \<open>box.GenerateKey\<close> fails on the random source, \<open>New\<close> returns that
  error and a nil server, whatever the modifiers are: none of them is applied, the
  outcome is the one of \<open>New\<close> with no modifier at all.
\<close>

theorem keygen_failure_fatal:
  assumes "gk r = Inl err"
  shows "New gk r mods = (None, Some (lib_error err)) \<and> New gk r mods = New gk r []"
  using assms by (simp add: New_def)

theorem keygen_failure_fatal_witness:
  "New test_GenerateKey 0 [WithAuthURL ''https://auth.example.com'', WithPrincipals ''root''] =
     (None :: (nat, byte list, unit) Server option, Some (lib_error ''short read''))"
proof -
  have g: "test_GenerateKey 0 = Inl ''short read''" by (simp add: test_GenerateKey_def)
  from keygen_failure_fatal[where gk = test_GenerateKey and r = 0, OF g]
  show ?thesis by blast
qed

subsection \<open>C1: an empty or root endpoint URL\<close>

text \<open>
  C1, as stated: whenever the endpoint URL is empty or normalizes to the root path
  \<open>''/''\<close>, \<open>New\<close> returns an error and a nil server. The only normalization
  of the factory is \<open>strings.TrimSuffix(s.authURL, "/")\<close> in \<open>New\<close>. The URL
  \<open>''//''\<close> normalizes to \<open>''/''\<close>, and \<open>New\<close> accepts it, through
  \<open>WithAuthURL\<close> and through \<open>WithFlags\<close> alike: the test of \<open>WithFlags\<close>
  reads the URL before it is trimmed, the test of \<open>New\<close> only looks for the empty
  string after. The server returned has the root path as its endpoint URL.
\<close>

theorem double_slash_url_accepted:
  "TrimSuffix ''//'' ''/'' = ''/'' \<and>
   New test_GenerateKey 1 [WithAuthURL ''//''] =
     (Some (test_server\<lparr>authURL := ''/''\<rparr>), None) \<and>
   New test_GenerateKey 1
     [WithFlags test_ssh
        \<lparr>TimeLimit = 30 * Minute, AuthURL = ''//'', Principals = ''root'', CA = [7]\<rparr>] =
     (Some (test_server\<lparr>authURL := ''/'', caSigner := Some [7],
                        marshalledCAPublicKey := [7, 10], principals := [''root'']\<rparr>), None)"
  by (simp add: test_eval Split_examples)

text \<open>
  C1, amended: if the endpoint URL \<open>u\<close> is empty or is exactly \<open>''/''\<close>, which
  are the two strings that are empty once a trailing slash is stripped, then \<open>New\<close>
  returns an error and a nil server. The URL is supplied by \<open>WithAuthURL u\<close> or by
  \<open>WithFlags\<close> on flags whose \<open>AuthURL\<close> is \<open>u\<close>; the modifiers before it
  are arbitrary, the ones after it leave the URL alone.
\<close>

theorem New_rejects_empty_or_root_url:
  assumes u: "u = [] \<or> u = ''/''"
    and m: "m = WithAuthURL u \<or> m = WithFlags lib (f\<lparr>AuthURL := u\<rparr>)"
    and k: "\<forall>m'\<in>set post. keeps authURL m'"
  shows "TrimSuffix u ''/'' = [] \<and> (\<exists>e. New gk r (pre @ m # post) = (None, Some e))"
proof -
  have "New gk r (pre @ m # post) \<noteq> (Some srv, None)" for srv
  proof
    assume "New gk r (pre @ m # post) = (Some srv, None)"
    then obtain pub priv s where
      a: "apply_mods (pre @ m # post) (new_server r pub priv) = (None, s)"
      and t: "TrimSuffix (authURL s) ''/'' \<noteq> []"
      unfolding New_Some_iff by blast
    from apply_mods_url[OF m k a] have "authURL s = u" .
    with t u show False by (simp add: TrimSuffix_slash_empty)
  qed
  with New_cases[of gk r "pre @ m # post"]
  have "\<exists>e. New gk r (pre @ m # post) = (None, Some e)" by blast
  with u show ?thesis by (simp add: TrimSuffix_slash_empty)
qed

theorem New_rejects_empty_or_root_url_witness:
  "(\<exists>e. New test_GenerateKey 1
           [WithTimeLimit 5, WithAuthURL ''/'', WithPrincipals ''root''] =
         (None :: (nat, byte list, unit) Server option, Some e)) \<and>
   (\<exists>e. New test_GenerateKey 1 [WithFlags test_ssh (test_flags\<lparr>AuthURL := []\<rparr>)] =
         (None :: (nat, byte list, unit) Server option, Some e))"
proof -
  have k: "\<forall>m'\<in>set [WithPrincipals ''root'' :: (string, nat, byte list, unit) Modifier].
             keeps authURL m'"
    by (simp add: keeps_authURL_factory)
  have k0: "\<forall>m'\<in>set ([] :: (string, nat, byte list, unit) Modifier list). keeps authURL m'"
    by simp
  from New_rejects_empty_or_root_url
         [where u = "''/''" and m = "WithAuthURL ''/''" and lib = test_ssh and f = test_flags
            and post = "[WithPrincipals ''root'']" and gk = test_GenerateKey and r = 1
            and pre = "[WithTimeLimit 5]", OF _ _ k]
  have a: "\<exists>e. New test_GenerateKey 1
                  [WithTimeLimit 5, WithAuthURL ''/'', WithPrincipals ''root''] =
                (None :: (nat, byte list, unit) Server option, Some e)"
    by simp
  from New_rejects_empty_or_root_url
         [where u = "[]" and m = "WithFlags test_ssh (test_flags\<lparr>AuthURL := []\<rparr>)"
            and lib = test_ssh and f = test_flags and post = "[]" and gk = test_GenerateKey
            and r = 1 and pre = "[]", OF _ _ k0]
  have b: "\<exists>e. New test_GenerateKey 1 [WithFlags test_ssh (test_flags\<lparr>AuthURL := []\<rparr>)] =
                (None :: (nat, byte list, unit) Server option, Some e)"
    by simp
  from a b show ?thesis by blast
qed

subsection \<open>C2: no principals\<close>

text \<open>
  C2. \<open>WithPrincipals\<close> on the empty string returns the error "there cannot be 0
  principals in the auth server", and \<open>New\<close> with that modifier anywhere in its
  list returns an error and a nil server, hence no server with an empty principal
  list; so does \<open>New\<close> with \<open>WithFlags\<close> on flags whose principal string is
  empty.
\<close>

theorem zero_principals_fatal:
  "WithPrincipals [] s =
     (Some (errors_New ''there cannot be 0 principals in the auth server''), s) \<and>
   (\<exists>e. New gk r (pre @ WithPrincipals [] # post) = (None, Some e)) \<and>
   (\<exists>e. New gk r (pre @ WithFlags lib (f\<lparr>Principals := []\<rparr>) # post) = (None, Some e))"
proof (intro conjI)
  show "WithPrincipals [] s =
     (Some (errors_New ''there cannot be 0 principals in the auth server''), s)"
    by (simp add: WithPrincipals_eq)
  show "\<exists>e. New gk r (pre @ WithPrincipals [] # post) = (None, Some e)"
    by (rule New_always_failing_modifier) (simp add: WithPrincipals_eq)
  show "\<exists>e. New gk r (pre @ WithFlags lib (f\<lparr>Principals := []\<rparr>) # post) = (None, Some e)"
    by (rule New_always_failing_modifier) (simp add: WithFlags_eq split: sum.splits)
qed

subsection \<open>C3: the trailing slash of the endpoint URL\<close>

text \<open>
  C3. When \<open>New\<close> succeeds on the endpoint URL \<open>u\<close> (supplied by
  \<open>WithAuthURL\<close> or \<open>WithFlags\<close>, no later modifier changing it), the server's
  \<open>authURL\<close> is \<open>u\<close> with its trailing slash stripped: a URL \<open>v/\<close> is stored
  as \<open>v\<close>, a URL that does not end in a slash is stored unchanged.
\<close>

theorem New_authURL_trimmed:
  assumes m: "m = WithAuthURL u \<or> m = WithFlags lib (f\<lparr>AuthURL := u\<rparr>)"
    and k: "\<forall>m'\<in>set post. keeps authURL m'"
    and n: "New gk r (pre @ m # post) = (Some srv, None)"
  shows "authURL srv = TrimSuffix u ''/'' \<and>
         (\<forall>v. u = v @ ''/'' \<longrightarrow> authURL srv = v) \<and>
         (\<not> HasSuffix u ''/'' \<longrightarrow> authURL srv = u)"
proof -
  from n obtain pub priv s where
    a: "apply_mods (pre @ m # post) (new_server r pub priv) = (None, s)"
    and srv: "srv = s\<lparr>authURL := TrimSuffix (authURL s) ''/''\<rparr>"
    unfolding New_Some_iff by blast
  from apply_mods_url[OF m k a] srv have "authURL srv = TrimSuffix u ''/''" by simp
  then show ?thesis by (simp add: TrimSuffix_slash_snoc TrimSuffix_no_suffix)
qed

theorem New_authURL_trimmed_witness:
  "New test_GenerateKey 1 [WithAuthURL ''https://auth.example.com/'', WithTimeLimit 5] =
     (Some (test_server\<lparr>limit := 5, authURL := ''https://auth.example.com''\<rparr>), None) \<and>
   authURL (test_server\<lparr>limit := 5, authURL := ''https://auth.example.com''\<rparr>) =
     TrimSuffix ''https://auth.example.com/'' ''/''"
proof -
  let ?srv = "test_server\<lparr>limit := 5, authURL := ''https://auth.example.com''\<rparr>"
  have k: "\<forall>m'\<in>set [WithTimeLimit 5 :: (string, nat, byte list, unit) Modifier].
             keeps authURL m'"
    by (simp add: keeps_authURL_factory)
  have n: "New test_GenerateKey 1 ([] @ WithAuthURL ''https://auth.example.com/'' # [WithTimeLimit 5]) =
             (Some ?srv, None)"
    by (simp add: test_eval)
  from New_authURL_trimmed
         [where m = "WithAuthURL ''https://auth.example.com/''" and lib = test_ssh
            and f = test_flags, OF _ k n]
  have "authURL ?srv = TrimSuffix ''https://auth.example.com/'' ''/''" by simp
  with n show ?thesis by simp
qed

subsection \<open>C4: a CA key that does not parse\<close>

text \<open>
  C4. If \<open>ssh.ParsePrivateKey\<close> fails on the bytes given, \<open>WithCA\<close> returns that
  error and leaves the server as it was, and \<open>New\<close> with that modifier in its list
  (or with \<open>WithFlags\<close> on flags carrying those bytes) returns an error and a nil
  server. When the key pair was generated and the modifiers before it succeeded, the
  error \<open>New\<close> returns is the parser's.
\<close>

theorem unparsable_CA_fatal:
  assumes p: "ParsePrivateKey lib b = Inl err"
  shows "WithCA lib b s = (Some (lib_error err), s) \<and>
         (\<exists>e. New gk r (pre @ WithCA lib b # post) = (None, Some e)) \<and>
         (\<exists>e. New gk r (pre @ WithFlags lib (f\<lparr>CA := b\<rparr>) # post) = (None, Some e)) \<and>
         (gk r = Inr (pub, priv) \<longrightarrow> apply_mods pre (new_server r pub priv) = (None, sa) \<longrightarrow>
            New gk r (pre @ WithCA lib b # post) = (None, Some (lib_error err)) \<and>
            New gk r (pre @ WithFlags lib (f\<lparr>CA := b\<rparr>) # post) = (None, Some (lib_error err)))"
proof (intro conjI impI)
  show "WithCA lib b s = (Some (lib_error err), s)"
    using p by (simp add: WithCA_def)
  show "\<exists>e. New gk r (pre @ WithCA lib b # post) = (None, Some e)"
    by (rule New_always_failing_modifier) (simp add: p WithCA_def)
  show "\<exists>e. New gk r (pre @ WithFlags lib (f\<lparr>CA := b\<rparr>) # post) = (None, Some e)"
    by (rule New_always_failing_modifier) (simp add: p WithFlags_eq)
next
  assume g: "gk r = Inr (pub, priv)"
    and a: "apply_mods pre (new_server r pub priv) = (None, sa)"
  show "New gk r (pre @ WithCA lib b # post) = (None, Some (lib_error err))"
    by (rule New_first_error[where gk = gk and r = r, OF g a]) (simp add: p WithCA_def)
  show "New gk r (pre @ WithFlags lib (f\<lparr>CA := b\<rparr>) # post) = (None, Some (lib_error err))"
    by (rule New_first_error[where gk = gk and r = r, OF g a]) (simp add: p WithFlags_eq)
qed

theorem unparsable_CA_fatal_witness:
  "WithCA test_ssh [] test_server = (Some (lib_error ''ssh: no key found''), test_server) \<and>
   New test_GenerateKey 1
     [WithAuthURL ''https://auth.example.com'', WithCA test_ssh [], WithPrincipals ''root''] =
     (None :: (nat, byte list, unit) Server option, Some (lib_error ''ssh: no key found''))"
proof -
  have p: "ParsePrivateKey test_ssh [] = Inl ''ssh: no key found''"
    by (simp add: test_ssh_def)
  have g: "test_GenerateKey 1 = Inr ([1], [2])" by (simp add: test_GenerateKey_def)
  have a: "apply_mods [WithAuthURL ''https://auth.example.com''] (new_server 1 [1] [2]) =
             (None :: string error option,
              test_server\<lparr>authURL := ''https://auth.example.com''\<rparr>)"
    by (simp add: WithAuthURL_def test_server_def)
  note T = unparsable_CA_fatal
         [where lib = test_ssh and s = test_server and gk = test_GenerateKey and r = 1
            and pub = "[1]" and priv = "[2]"
            and sa = "test_server\<lparr>authURL := ''https://auth.example.com''\<rparr>"
            and pre = "[WithAuthURL ''https://auth.example.com'']"
            and post = "[WithPrincipals ''root'']" and f = test_flags, OF p]
  from T have c: "WithCA test_ssh [] test_server =
      (Some (lib_error ''ssh: no key found''), test_server)"
    by (rule conjunct1)
  from T g a have "New test_GenerateKey 1
      ([WithAuthURL ''https://auth.example.com''] @ WithCA test_ssh [] # [WithPrincipals ''root'']) =
      (None :: (nat, byte list, unit) Server option, Some (lib_error ''ssh: no key found''))"
    by blast
  then have "New test_GenerateKey 1
      [WithAuthURL ''https://auth.example.com'', WithCA test_ssh [], WithPrincipals ''root''] =
      (None :: (nat, byte list, unit) Server option, Some (lib_error ''ssh: no key found''))"
    by (simp only: append.simps)
  with c show ?thesis by (rule conjI)
qed

subsection \<open>C6: the order of the configuration steps\<close>



subsection \<open>C7: the default time limit\<close>



subsection \<open>C8: the CA public key\<close>

text \<open>
  C8. When the CA key parses, \<open>WithCA\<close> stores the signer and sets
  \<open>marshalledCAPublicKey\<close> to the authorized-key marshalling of the signer's
  public key, and returns no error. A server that \<open>New\<close> then returns, no later
  modifier changing the field, exposes that marshalled key.
\<close>

theorem CA_public_key_exposed:
  assumes p: "ParsePrivateKey lib b = Inr signer"
  shows "WithCA lib b s =
           (None, s\<lparr>caSigner := Some signer,
                    marshalledCAPublicKey := MarshalAuthorizedKey lib (PublicKey lib signer)\<rparr>) \<and>
         ((\<forall>m\<in>set post. keeps marshalledCAPublicKey m) \<longrightarrow>
            New gk r (pre @ WithCA lib b # post) = (Some srv, None) \<longrightarrow>
            marshalledCAPublicKey srv = MarshalAuthorizedKey lib (PublicKey lib signer))"
proof (intro conjI impI)
  show "WithCA lib b s =
           (None, s\<lparr>caSigner := Some signer,
                    marshalledCAPublicKey := MarshalAuthorizedKey lib (PublicKey lib signer)\<rparr>)"
    using p by (simp add: WithCA_def)
next
  assume k: "\<forall>m\<in>set post. keeps marshalledCAPublicKey m"
    and n: "New gk r (pre @ WithCA lib b # post) = (Some srv, None)"
  from n obtain pub priv s' where
    ap: "apply_mods (pre @ WithCA lib b # post) (new_server r pub priv) = (None, s')"
    and srv: "srv = s'\<lparr>authURL := TrimSuffix (authURL s') ''/''\<rparr>"
    unfolding New_Some_iff by blast
  from ap obtain s1 where rest: "apply_mods (WithCA lib b # post) s1 = (None, s')"
    by (auto simp add: apply_mods_append split: prod.splits option.splits)
  let ?s2 = "s1\<lparr>caSigner := Some signer,
      marshalledCAPublicKey := MarshalAuthorizedKey lib (PublicKey lib signer)\<rparr>"
  from rest p have fin: "apply_mods post ?s2 = (None, s')"
    by (simp add: WithCA_def)
  from apply_mods_keeps[OF k, of ?s2] fin
  have "marshalledCAPublicKey s' = MarshalAuthorizedKey lib (PublicKey lib signer)" by simp
  with srv show "marshalledCAPublicKey srv = MarshalAuthorizedKey lib (PublicKey lib signer)"
    by simp
qed

theorem CA_public_key_exposed_witness:
  "New test_GenerateKey 1
     [WithAuthURL ''https://auth.example.com'', WithCA test_ssh [7, 8],
      WithPrincipals ''john,root''] =
     (Some (test_server\<lparr>authURL := ''https://auth.example.com'', caSigner := Some [7, 8],
                        marshalledCAPublicKey := [8, 7, 10],
                        principals := [''john'', ''root'']\<rparr>), None) \<and>
   MarshalAuthorizedKey test_ssh (PublicKey test_ssh [7, 8]) = [8, 7, 10]"
proof -
  let ?srv = "test_server\<lparr>authURL := ''https://auth.example.com'', caSigner := Some [7, 8],
                        marshalledCAPublicKey := [8, 7, 10],
                        principals := [''john'', ''root'']\<rparr>"
  have p: "ParsePrivateKey test_ssh [7, 8] = Inr [7, 8]" by (simp add: test_ssh_def)
  have k: "\<forall>m\<in>set [WithPrincipals ''john,root'' :: (string, nat, byte list, unit) Modifier].
             keeps marshalledCAPublicKey m"
    by (simp add: keeps_CA_factory)
  have n: "New test_GenerateKey 1
      ([WithAuthURL ''https://auth.example.com''] @ WithCA test_ssh [7, 8] #
       [WithPrincipals ''john,root'']) = (Some ?srv, None)"
    by (simp add: test_eval Split_examples)
  from CA_public_key_exposed[where lib = test_ssh and gk = test_GenerateKey and r = 1
      and pre = "[WithAuthURL ''https://auth.example.com'']"
      and post = "[WithPrincipals ''john,root'']" and srv = ?srv and s = test_server, OF p] k n
  have "marshalledCAPublicKey ?srv = MarshalAuthorizedKey test_ssh (PublicKey test_ssh [7, 8])"
    by blast
  then have "MarshalAuthorizedKey test_ssh (PublicKey test_ssh [7, 8]) = [8, 7, 10]" by simp
  with n show ?thesis by simp
qed

subsection \<open>C9: when WithPrincipals fails\<close>

text \<open>
  C9. \<open>WithPrincipals raw\<close> returns an error exactly when \<open>raw\<close> is the empty
  string. On every other string it succeeds and sets the principal list to
  \<open>strings.Split(raw, ",")\<close>: the pieces of \<open>raw\<close> between its commas, in order
  (joined by commas they give \<open>raw\<close> back, and no piece holds a comma). Some pieces
  may be empty: \<open>'',''\<close> gives two empty principal names.
\<close>

theorem WithPrincipals_error_iff_empty:
  "(fst (WithPrincipals raw s) \<noteq> None \<longleftrightarrow> raw = []) \<and>
   (raw \<noteq> [] \<longrightarrow> WithPrincipals raw s = (None, s\<lparr>principals := Split raw '',''\<rparr>)) \<and>
   Join (Split raw '','') '','' = raw \<and>
   (\<forall>p\<in>set (Split raw '',''). CHR '','' \<notin> set p) \<and>
   Split '','' '','' = [[], []]"
proof (intro conjI impI)
  show "fst (WithPrincipals raw s) \<noteq> None \<longleftrightarrow> raw = []" by (simp add: WithPrincipals_eq)
  show "Join (Split raw '','') '','' = raw" by (simp add: Join_Split)
  show "\<forall>p\<in>set (Split raw '',''). CHR '','' \<notin> set p" using Split_byte_pieces by blast
  show "Split '','' '','' = [[], []]" by (rule Split_examples)
next
  assume "raw \<noteq> []"
  then show "WithPrincipals raw s = (None, s\<lparr>principals := Split raw '',''\<rparr>)"
    by (simp add: WithPrincipals_eq)
qed

theorem WithPrincipals_error_iff_empty_witness:
  "WithPrincipals '','' test_server =
     (None :: string error option, test_server\<lparr>principals := [[], []]\<rparr>) \<and>
   fst (WithPrincipals [] test_server :: string error option \<times> _) \<noteq> None"
proof -
  note T = WithPrincipals_error_iff_empty[where raw = "'',''" and s = test_server]
  have ne: "'','' \<noteq> ([] :: string)" by simp
  from T ne have "WithPrincipals '','' test_server =
      (None :: string error option, test_server\<lparr>principals := Split '','' '',''\<rparr>)"
    by blast
  moreover from T have "Split '','' '','' = [[], []]" by blast
  ultimately have a: "WithPrincipals '','' test_server =
      (None :: string error option, test_server\<lparr>principals := [[], []]\<rparr>)"
    by simp
  from WithPrincipals_error_iff_empty[where raw = "[]" and s = test_server]
  have b: "fst (WithPrincipals [] test_server :: string error option \<times> _) \<noteq> None"
    by blast
  from a b show ?thesis by (rule conjI)
qed

subsection \<open>C10: no session in flight at construction\<close>

text \<open>
  C10. \<open>New\<close> allocates the server with an empty \<open>jars\<close> map, and none of the
  factory's modifiers (\<open>WithTimeLimit\<close>, \<open>WithAuthURL\<close>, \<open>WithCA\<close>,
  \<open>WithPrincipals\<close>, \<open>WithFlags\<close>) touches the map. So a server that \<open>New\<close>
  returns, built with modifiers that leave the map alone, has no jar.
\<close>

theorem New_jars_empty:
  "keeps jars (WithTimeLimit l) \<and> keeps jars (WithAuthURL u) \<and> keeps jars (WithCA lib b) \<and>
   keeps jars (WithPrincipals p) \<and> keeps jars (WithFlags lib f) \<and>
   ((\<forall>m\<in>set mods. keeps jars m) \<longrightarrow> New gk r mods = (Some srv, None) \<longrightarrow>
      jars srv = Map.empty \<and> dom (jars srv) = {})"
proof (intro conjI impI)
  show "keeps jars (WithTimeLimit l)" by (rule keeps_jars_factory)
  show "keeps jars (WithAuthURL u)" by (rule keeps_jars_factory)
  show "keeps jars (WithCA lib b)" by (rule keeps_jars_factory)
  show "keeps jars (WithPrincipals p)" by (rule keeps_jars_factory)
  show "keeps jars (WithFlags lib f)" by (rule keeps_jars_factory)
next
  assume k: "\<forall>m\<in>set mods. keeps jars m" and n: "New gk r mods = (Some srv, None)"
  from n obtain pub priv s where
    a: "apply_mods mods (new_server r pub priv) = (None, s)"
    and srv: "srv = s\<lparr>authURL := TrimSuffix (authURL s) ''/''\<rparr>"
    unfolding New_Some_iff by blast
  from apply_mods_keeps[OF k, of "new_server r pub priv"] a
  have "jars s = Map.empty" by (simp add: new_server_def)
  with srv show j: "jars srv = Map.empty" by simp
  then show "dom (jars srv) = {}" by simp
qed

theorem New_jars_empty_witness:
  "New test_GenerateKey 1 [WithFlags test_ssh test_flags, WithTimeLimit (10 * Minute)] =
     (Some (test_server\<lparr>limit := 10 * Minute, authURL := ''https://auth.example.com'',
                        caSigner := Some [7, 8], marshalledCAPublicKey := [8, 7, 10],
                        principals := [''john'', ''root'']\<rparr>), None) \<and>
   jars (test_server\<lparr>limit := 10 * Minute, authURL := ''https://auth.example.com'',
                     caSigner := Some [7, 8], marshalledCAPublicKey := [8, 7, 10],
                     principals := [''john'', ''root'']\<rparr>) = Map.empty"
proof -
  let ?mods = "[WithFlags test_ssh test_flags, WithTimeLimit (10 * Minute)]
      :: (string, nat, byte list, unit) Modifier list"
  let ?srv = "test_server\<lparr>limit := 10 * Minute, authURL := ''https://auth.example.com'',
                        caSigner := Some [7, 8], marshalledCAPublicKey := [8, 7, 10],
                        principals := [''john'', ''root'']\<rparr>"
  have k: "\<forall>m\<in>set ?mods. keeps jars m" by (simp add: keeps_jars_factory)
  have n: "New test_GenerateKey 1 ?mods = (Some ?srv, None)"
    by (simp add: test_eval Split_examples)
  from New_jars_empty[where mods = ?mods and gk = test_GenerateKey and r = 1
      and srv = ?srv and lib = test_ssh] k n
  have "jars ?srv = Map.empty" by blast
  with n show ?thesis by (rule conjI)
qed

end
